theory Spec2Isabelle
  imports Main
begin

section \<open>Task API: a shallow embedding of app/crud.py, app/auth.py and app/schemas.py\<close>

text \<open>
  The program is a FastAPI service over an SQLAlchemy session. The embedding keeps the
  source's functions and their names. What the source leaves to its collaborators is made
  explicit:
  \<^item> the clock (\<open>datetime.utcnow()\<close>) is an argument \<open>utcnow\<close> of every function that
    reads it;
  \<^item> the database session is a value of type \<open>Session\<close> that is passed in and, where the
    source commits, returned updated;
  \<^item> a raised exception is the left summand of the result, whether the program raises it
    or a library raises it and no handler of the program catches it; \<open>None\<close> is \<open>None\<close>;
  \<^item> the keyed hash of the JWT library, the hash comparison of passlib and the rule the
    task table has for its updated-timestamp are arguments (\<open>sign\<close>, \<open>pwd_verify\<close>,
    \<open>onupdate\<close>), so every theorem holds for each such function.
\<close>

subsection \<open>Time\<close>

text \<open>
  A Python \<open>datetime\<close> (naive, UTC) counts microseconds since the epoch, a \<open>timedelta\<close>
  counts microseconds. \<open>timegm (d.utctimetuple ())\<close> drops the microseconds and gives
  whole seconds.
\<close>

datatype datetime = Datetime (micros: int)

datatype timedelta = Timedelta (td_micros: int)

definition timedelta_minutes :: "int \<Rightarrow> timedelta" where
  "timedelta_minutes m = Timedelta (m * 60000000)"

definition dt_add :: "datetime \<Rightarrow> timedelta \<Rightarrow> datetime" where
  "dt_add d t = Datetime (micros d + td_micros t)"

text \<open>The truth value of a \<open>timedelta\<close>: only \<open>timedelta(0)\<close> is false.\<close>

definition td_bool :: "timedelta \<Rightarrow> bool" where
  "td_bool t = (td_micros t \<noteq> 0)"

definition timegm :: "datetime \<Rightarrow> int" where
  "timegm d = micros d div 1000000"

subsection \<open>Exceptions\<close>

text \<open>
  The exceptions that reach the program: the \<open>HTTPException\<close> of FastAPI with its status
  code, detail and headers, the three of python-jose (\<open>ExpiredSignatureError\<close> and
  \<open>JWTClaimsError\<close> are subclasses of \<open>JWTError\<close>), three built-in ones, and the
  \<open>PasswordValueError\<close> of passlib.
\<close>

datatype exception =
    HTTPException nat string "(string \<times> string) list"
  | JWTError
  | ExpiredSignatureError
  | JWTClaimsError
  | TypeError
  | ValueError
  | OverflowError
  | PasswordValueError

text \<open>What \<open>except JWTError\<close> catches.\<close>

fun isinstance_JWTError :: "exception \<Rightarrow> bool" where
  "isinstance_JWTError JWTError = True"
| "isinstance_JWTError ExpiredSignatureError = True"
| "isinstance_JWTError JWTClaimsError = True"
| "isinstance_JWTError _ = False"

subsection \<open>The data model\<close>

datatype TaskStatus = TODO | IN_PROGRESS | DONE

datatype TaskPriority = LOW | MEDIUM | HIGH

text \<open>
  A row of the task table, as the Python object of class \<open>models.Task\<close> holds it. The
  business attributes are optional because \<open>setattr\<close> can store \<open>None\<close> in any of them.
\<close>

record Task =
  id_task :: int
  title :: "string option"
  description :: "string option"
  status :: "TaskStatus option"
  priority :: "TaskPriority option"
  user_id :: int
  created_at :: datetime
  updated_at :: datetime

record User =
  id_user :: int
  email :: string
  hashed_password :: string
  created_at_user :: datetime

text \<open>
  The session: the two tables in row order, and the counter the engine draws the next
  task identifier from.
\<close>

record Session =
  users :: "User list"
  tasks :: "Task list"
  next_task_id :: int

subsection \<open>app/schemas.py\<close>

record TaskCreate =
  title_new :: string
  description_new :: "string option"
  priority_new :: TaskPriority

datatype ValidationError = string_too_short | string_too_long

text \<open>
  \<open>TaskBase\<close>: \<open>title\<close> with \<open>min_length=1, max_length=200\<close>, \<open>description\<close> optional with
  \<open>max_length=1000\<close>, \<open>priority\<close> with the default \<open>TaskPriority.MEDIUM\<close>.
\<close>

definition TaskCreate_validate ::
    "string \<Rightarrow> string option \<Rightarrow> TaskPriority option \<Rightarrow> ValidationError + TaskCreate" where
  "TaskCreate_validate t d p =
     (if length t < 1 then Inl string_too_short
      else if 200 < length t then Inl string_too_long
      else if (case d of None \<Rightarrow> False | Some s \<Rightarrow> 1000 < length s) then Inl string_too_long
      else Inr \<lparr>title_new = t, description_new = d,
                priority_new = (case p of None \<Rightarrow> MEDIUM | Some q \<Rightarrow> q)\<rparr>)"

text \<open>
  \<open>TaskUpdate\<close>: four optional fields without constraints. Pydantic records which fields
  the request has set: \<open>None\<close> is a field that was not sent, \<open>Some None\<close> an explicit
  null, \<open>Some (Some v)\<close> a value.
\<close>

record TaskUpdate =
  title_upd :: "string option option"
  description_upd :: "string option option"
  status_upd :: "TaskStatus option option"
  priority_upd :: "TaskPriority option option"

text \<open>An item of \<open>model_dump(exclude_unset=True)\<close>: a field name with its value.\<close>

datatype update_item =
    Title "string option"
  | Description "string option"
  | Status "TaskStatus option"
  | Priority "TaskPriority option"

definition model_dump_exclude_unset :: "TaskUpdate \<Rightarrow> update_item list" where
  "model_dump_exclude_unset u =
     (case title_upd u of None \<Rightarrow> [] | Some v \<Rightarrow> [Title v]) @
     (case description_upd u of None \<Rightarrow> [] | Some v \<Rightarrow> [Description v]) @
     (case status_upd u of None \<Rightarrow> [] | Some v \<Rightarrow> [Status v]) @
     (case priority_upd u of None \<Rightarrow> [] | Some v \<Rightarrow> [Priority v])"

fun setattr :: "Task \<Rightarrow> update_item \<Rightarrow> Task" where
  "setattr t (Title v) = t\<lparr>title := v\<rparr>"
| "setattr t (Description v) = t\<lparr>description := v\<rparr>"
| "setattr t (Status v) = t\<lparr>status := v\<rparr>"
| "setattr t (Priority v) = t\<lparr>priority := v\<rparr>"

record TokenData =
  email_token :: "string option"

subsection \<open>The storage engine\<close>

text \<open>
  Modelled from the spec: the class \<open>models.Task\<close> (app/models.py) and the engine
  (app/database.py) are not among the sources. The spec has \<open>add\<close>, \<open>commit\<close> and
  \<open>refresh\<close> of a new task assign a generated identifier, the status \<open>todo\<close> and one
  instant to both timestamps.
\<close>

definition add_commit_refresh ::
    "Session \<Rightarrow> string \<Rightarrow> string option \<Rightarrow> TaskPriority \<Rightarrow> int \<Rightarrow> datetime \<Rightarrow> Session \<times> Task" where
  "add_commit_refresh db t d p uid utcnow =
     (let db_task = \<lparr>id_task = next_task_id db, title = Some t, description = d,
                      status = Some TODO, priority = Some p, user_id = uid,
                      created_at = utcnow, updated_at = utcnow\<rparr>
      in (db\<lparr>tasks := tasks db @ [db_task], next_task_id := next_task_id db + 1\<rparr>, db_task))"

text \<open>
  \<open>db.commit(); db.refresh(db_task)\<close> for an object \<open>loaded\<close> from the table and since
  then changed by \<open>setattr\<close> into \<open>db_task\<close>. The session writes a row only when an
  attribute differs from the loaded value: with nothing changed no \<open>UPDATE\<close> is sent and
  the row stays as it is, timestamp included. When a row is written, its
  updated-timestamp is set by the rule the column declares in app/models.py. That file
  is not among the sources, so the rule is the argument \<open>onupdate\<close>: from the stored
  timestamp and the clock to the new timestamp.
\<close>

definition commit_refresh ::
    "(datetime \<Rightarrow> datetime \<Rightarrow> datetime) \<Rightarrow> Session \<Rightarrow> Task \<Rightarrow> Task \<Rightarrow> datetime
       \<Rightarrow> Session \<times> Task" where
  "commit_refresh onupdate db loaded db_task utcnow =
     (if db_task = loaded then (db, loaded)
      else
        (let t = db_task\<lparr>updated_at := onupdate (updated_at loaded) utcnow\<rparr>
         in (db\<lparr>tasks := map (\<lambda>r. if id_task r = id_task t then t else r) (tasks db)\<rparr>, t)))"

text \<open>\<open>db.delete(db_task); db.commit()\<close>: the row with the object's identifier is removed.\<close>

definition delete_commit :: "Session \<Rightarrow> Task \<Rightarrow> Session" where
  "delete_commit db db_task =
     db\<lparr>tasks := filter (\<lambda>r. id_task r \<noteq> id_task db_task) (tasks db)\<rparr>"

text \<open>
  \<open>.offset(skip).limit(limit)\<close> with Python integers, as SQLite (the engine of
  tests/conftest.py) reads them: a negative offset skips nothing, a negative limit does
  not limit.
\<close>

definition offset_rows :: "int \<Rightarrow> 'a list \<Rightarrow> 'a list" where
  "offset_rows skip rows = drop (nat skip) rows"

definition limit_rows :: "int \<Rightarrow> 'a list \<Rightarrow> 'a list" where
  "limit_rows lim rows = (if lim < 0 then rows else take (nat lim) rows)"

text \<open>
  The primary key: identifiers are distinct, and all of them were drawn from the counter.
\<close>

definition db_inv :: "Session \<Rightarrow> bool" where
  "db_inv db \<longleftrightarrow>
     distinct (map id_task (tasks db)) \<and>
     list_all (\<lambda>t. id_task t < next_task_id db) (tasks db)"

subsection \<open>app/crud.py\<close>

definition get_user_by_email :: "Session \<Rightarrow> string \<Rightarrow> User option" where
  "get_user_by_email db e = find (\<lambda>u. email u = e) (users db)"

text \<open>
  \<open>pwd_context.verify\<close> of passlib: a password with a NUL character is refused with a
  \<open>PasswordValueError\<close>; any other password is compared with the hash, which is the
  argument \<open>pwd_verify\<close>.
\<close>

definition pwd_context_verify ::
    "(string \<Rightarrow> string \<Rightarrow> bool) \<Rightarrow> string \<Rightarrow> string \<Rightarrow> exception + bool" where
  "pwd_context_verify pwd_verify secret hash =
     (if CHR 0x00 \<in> set secret then Inl PasswordValueError
      else Inr (pwd_verify secret hash))"

definition verify_password ::
    "(string \<Rightarrow> string \<Rightarrow> bool) \<Rightarrow> string \<Rightarrow> string \<Rightarrow> exception + bool" where
  "verify_password pwd_verify plain_password hashed =
     pwd_context_verify pwd_verify plain_password hashed"

text \<open>No handler stands around the call of \<open>verify_password\<close>: what it raises goes on.\<close>

definition authenticate_user ::
    "(string \<Rightarrow> string \<Rightarrow> bool) \<Rightarrow> Session \<Rightarrow> string \<Rightarrow> string \<Rightarrow> exception + User option" where
  "authenticate_user pwd_verify db e password =
     (case get_user_by_email db e of
        None \<Rightarrow> Inr None
      | Some user \<Rightarrow>
          (case verify_password pwd_verify password (hashed_password user) of
             Inl err \<Rightarrow> Inl err
           | Inr ok \<Rightarrow> if \<not> ok then Inr None else Inr (Some user)))"

definition get_tasks :: "Session \<Rightarrow> int \<Rightarrow> int \<Rightarrow> int \<Rightarrow> Task list" where
  "get_tasks db uid skip lim =
     limit_rows lim (offset_rows skip (filter (\<lambda>t. user_id t = uid) (tasks db)))"

definition get_task :: "Session \<Rightarrow> int \<Rightarrow> int \<Rightarrow> Task option" where
  "get_task db tid uid = find (\<lambda>t. id_task t = tid \<and> user_id t = uid) (tasks db)"

definition create_task :: "Session \<Rightarrow> TaskCreate \<Rightarrow> int \<Rightarrow> datetime \<Rightarrow> Session \<times> Task" where
  "create_task db task uid utcnow =
     add_commit_refresh db (title_new task) (description_new task) (priority_new task)
       uid utcnow"

definition update_task ::
    "(datetime \<Rightarrow> datetime \<Rightarrow> datetime) \<Rightarrow> Session \<Rightarrow> int \<Rightarrow> TaskUpdate \<Rightarrow> int \<Rightarrow> datetime
       \<Rightarrow> Session \<times> Task option" where
  "update_task onupdate db tid task uid utcnow =
     (case get_task db tid uid of
        None \<Rightarrow> (db, None)
      | Some db_task \<Rightarrow>
          (let update_data = model_dump_exclude_unset task;
               (db', t) = commit_refresh onupdate db db_task (foldl setattr db_task update_data)
                            utcnow
           in (db', Some t)))"

definition delete_task :: "Session \<Rightarrow> int \<Rightarrow> int \<Rightarrow> Session \<times> Task option" where
  "delete_task db tid uid =
     (case get_task db tid uid of
        None \<Rightarrow> (db, None)
      | Some db_task \<Rightarrow> (delete_commit db db_task, Some db_task))"

subsection \<open>The JWT library (jose)\<close>

text \<open>
  The library python-jose is a collaborator, not part of the repository. Its behaviour
  is written down as far as \<open>create_access_token\<close> and \<open>verify_token\<close> use it.

  The value of the expiry claim in a payload is any JSON value that \<open>json.loads\<close> gives:
  null, a truth value, an integer, the floats \<open>Infinity\<close> and \<open>NaN\<close>, a list. Strings,
  fractions and objects are left out.
\<close>

datatype json = JNull | JBool bool | JInt int | JInfinity | JNaN | JList "json list"

text \<open>Python's \<open>int(v)\<close> on such a value.\<close>

fun py_int :: "json \<Rightarrow> exception + int" where
  "py_int JNull = Inl TypeError"
| "py_int (JBool b) = Inr (if b then 1 else 0)"
| "py_int (JInt n) = Inr n"
| "py_int JInfinity = Inl OverflowError"
| "py_int JNaN = Inl ValueError"
| "py_int (JList vs) = Inl TypeError"

text \<open>
  A claim set with the two registered claims the program writes and reads. In the
  dictionary handed to \<open>jwt.encode\<close> the expiry is a \<open>datetime\<close>; in the payload of a token
  it is a JSON value. The subject is a string or absent: the library refuses any other
  subject with a \<open>JWTClaimsError\<close>, as it does a missing one for the program.
\<close>

record 't claims =
  sub :: "string option"
  exp :: "'t option"

text \<open>
  A token string is either a compact serialisation with a header algorithm, a payload
  and a signature, or a string that does not parse as one. \<open>sign key algorithm payload\<close>
  is the keyed hash; the theorems hold for every function \<open>sign\<close>.
\<close>

datatype 's token =
    JWS (alg: string) (payload: "json claims") (signature: 's)
  | Malformed string

text \<open>\<open>jwt.encode\<close> turns a \<open>datetime\<close> under \<open>exp\<close> into \<open>timegm\<close> seconds and signs.\<close>

definition jwt_encode ::
    "(string \<Rightarrow> string \<Rightarrow> json claims \<Rightarrow> 's) \<Rightarrow> datetime claims \<Rightarrow> string \<Rightarrow> string \<Rightarrow> 's token" where
  "jwt_encode sign to_encode key algorithm =
     (let p = \<lparr>sub = sub to_encode, exp = map_option (\<lambda>d. JInt (timegm d)) (exp to_encode)\<rparr>
      in JWS algorithm p (sign key algorithm p))"

text \<open>
  \<open>jwt.decode\<close>: the header algorithm must be among \<open>algorithms\<close> and the signature must
  be the keyed hash of the payload, else \<open>JWTError\<close>. Then the library's \<open>_validate_exp\<close>
  with no leeway: it takes \<open>int(claims['exp'])\<close>, turns a \<open>ValueError\<close> of that into a
  \<open>JWTClaimsError\<close> and has no handler for anything else \<open>int\<close> raises; the token is
  refused with \<open>ExpiredSignatureError\<close> when \<open>exp < timegm (utcnow)\<close>.
\<close>

definition jwt_decode ::
    "(string \<Rightarrow> string \<Rightarrow> json claims \<Rightarrow> 's) \<Rightarrow> 's token \<Rightarrow> string \<Rightarrow> string list \<Rightarrow> datetime
       \<Rightarrow> exception + json claims" where
  "jwt_decode sign tok key algorithms utcnow =
     (case tok of
        Malformed s \<Rightarrow> Inl JWTError
      | JWS a p s \<Rightarrow>
          if a \<notin> set algorithms then Inl JWTError
          else if s \<noteq> sign key a p then Inl JWTError
          else (case exp p of
                  None \<Rightarrow> Inr p
                | Some v \<Rightarrow>
                    (case py_int v of
                       Inl err \<Rightarrow> if err = ValueError then Inl JWTClaimsError else Inl err
                     | Inr e \<Rightarrow>
                         if e < timegm utcnow then Inl ExpiredSignatureError else Inr p)))"

subsection \<open>app/auth.py\<close>

definition SECRET_KEY :: string where
  "SECRET_KEY = ''your-secret-key-here-change-in-production''"

definition ALGORITHM :: string where
  "ALGORITHM = ''HS256''"

definition ACCESS_TOKEN_EXPIRE_MINUTES :: int where
  "ACCESS_TOKEN_EXPIRE_MINUTES = 30"

text \<open>
  \<open>if expires_delta:\<close> is false for \<open>None\<close> and for \<open>timedelta(0)\<close>. \<open>data.copy()\<close> followed
  by \<open>update({"exp": expire})\<close> keeps the subject and replaces the expiry.
\<close>

definition create_access_token ::
    "(string \<Rightarrow> string \<Rightarrow> json claims \<Rightarrow> 's) \<Rightarrow> 't claims \<Rightarrow> timedelta option \<Rightarrow> datetime \<Rightarrow> 's token" where
  "create_access_token sign data expires_delta utcnow =
     (let expire =
            (case expires_delta of
               None \<Rightarrow> dt_add utcnow (timedelta_minutes 15)
             | Some d \<Rightarrow>
                 if td_bool d then dt_add utcnow d
                 else dt_add utcnow (timedelta_minutes 15));
          to_encode = \<lparr>sub = sub data, exp = Some expire\<rparr>
      in jwt_encode sign to_encode SECRET_KEY ALGORITHM)"

text \<open>
  The handler \<open>except JWTError\<close> catches the library's own exceptions and raises the
  exception the function was given. Any other exception that \<open>jwt.decode\<close> raises passes
  the handler and leaves the function as it is.
\<close>

definition verify_token ::
    "(string \<Rightarrow> string \<Rightarrow> json claims \<Rightarrow> 's) \<Rightarrow> 's token \<Rightarrow> exception \<Rightarrow> datetime
       \<Rightarrow> exception + TokenData" where
  "verify_token sign tok credentials_exception utcnow =
     (case jwt_decode sign tok SECRET_KEY [ALGORITHM] utcnow of
        Inl err \<Rightarrow> if isinstance_JWTError err then Inl credentials_exception else Inl err
      | Inr p \<Rightarrow>
          (case sub p of
             None \<Rightarrow> Inl credentials_exception
           | Some e \<Rightarrow> Inr \<lparr>email_token = Some e\<rparr>))"

definition credentials_exception :: exception where
  "credentials_exception =
     HTTPException 401 ''Could not validate credentials'' [(''WWW-Authenticate'', ''Bearer'')]"

text \<open>
  The query \<open>User.email == None\<close> matches no row, so token data without an email finds no
  user.
\<close>

definition get_current_user ::
    "(string \<Rightarrow> string \<Rightarrow> json claims \<Rightarrow> 's) \<Rightarrow> 's token \<Rightarrow> Session \<Rightarrow> datetime
       \<Rightarrow> exception + User" where
  "get_current_user sign tok db utcnow =
     (case verify_token sign tok credentials_exception utcnow of
        Inl e \<Rightarrow> Inl e
      | Inr token_data \<Rightarrow>
          (case (case email_token token_data of
                   None \<Rightarrow> None
                 | Some e \<Rightarrow> get_user_by_email db e) of
             None \<Rightarrow> Inl credentials_exception
           | Some user \<Rightarrow> Inr user))"

text \<open>
  Modelled from the spec: the login endpoint (app/routers/auth.py) is not among the
  sources. The spec has it authenticate the credentials and request a token for the
  user's email with a lifetime of \<open>ACCESS_TOKEN_EXPIRE_MINUTES\<close> minutes; \<open>None\<close> stands for
  its refusal, and what \<open>authenticate_user\<close> raises goes on.
\<close>

definition login ::
    "(string \<Rightarrow> string \<Rightarrow> json claims \<Rightarrow> 's) \<Rightarrow> (string \<Rightarrow> string \<Rightarrow> bool) \<Rightarrow> Session \<Rightarrow> string
       \<Rightarrow> string \<Rightarrow> datetime \<Rightarrow> exception + 's token option" where
  "login sign pwd_verify db username password utcnow =
     (case authenticate_user pwd_verify db username password of
        Inl err \<Rightarrow> Inl err
      | Inr None \<Rightarrow> Inr None
      | Inr (Some user) \<Rightarrow>
          Inr (Some (create_access_token sign
                       \<lparr>sub = Some (email user), exp = (None :: unit option)\<rparr>
                       (Some (timedelta_minutes ACCESS_TOKEN_EXPIRE_MINUTES)) utcnow)))"

subsection \<open>Sequences of requests\<close>

text \<open>
  A request to the task store with the owner it was authenticated for, as
  app/routers/tasks.py passes \<open>current_user.id\<close> to app/crud.py.
\<close>

datatype request =
    ReadTasks int int int
  | CreateTask int TaskCreate
  | ReadTask int int
  | UpdateTask int int TaskUpdate
  | DeleteTask int int

fun handle ::
    "(datetime \<Rightarrow> datetime \<Rightarrow> datetime) \<Rightarrow> Session \<Rightarrow> request \<times> datetime \<Rightarrow> Session" where
  "handle onupdate db (ReadTasks uid skip lim, utcnow) = db"
| "handle onupdate db (CreateTask uid task, utcnow) = fst (create_task db task uid utcnow)"
| "handle onupdate db (ReadTask uid tid, utcnow) = db"
| "handle onupdate db (UpdateTask uid tid task, utcnow) =
     fst (update_task onupdate db tid task uid utcnow)"
| "handle onupdate db (DeleteTask uid tid, utcnow) = fst (delete_task db tid uid)"

definition serve ::
    "(datetime \<Rightarrow> datetime \<Rightarrow> datetime) \<Rightarrow> Session \<Rightarrow> (request \<times> datetime) list \<Rightarrow> Session" where
  "serve onupdate db reqs = foldl (handle onupdate) db reqs"

text \<open>
  What a run of requests keeps of a session: the counter does not go down, and a task
  whose identifier was drawn before the run has, in the old session, a task with that
  identifier and the same owner.
\<close>

definition keeps_owners :: "Session \<Rightarrow> Session \<Rightarrow> bool" where
  "keeps_owners db db' \<longleftrightarrow>
     next_task_id db \<le> next_task_id db' \<and>
     list_all (\<lambda>r'. id_task r' < next_task_id db \<longrightarrow>
                 list_ex (\<lambda>r. id_task r = id_task r' \<and> user_id r = user_id r') (tasks db))
       (tasks db')"

subsection \<open>Example data\<close>

text \<open>A session with two users who own one task each, used to run the theorems.\<close>

definition ex_alice :: User where
  "ex_alice = \<lparr>id_user = 1, email = ''a@example.com'', hashed_password = ''pw12345678'',
               created_at_user = Datetime 0\<rparr>"

definition ex_bob :: User where
  "ex_bob = \<lparr>id_user = 2, email = ''b@example.com'', hashed_password = ''hunter2hunter2'',
             created_at_user = Datetime 0\<rparr>"

definition ex_task1 :: Task where
  "ex_task1 = \<lparr>id_task = 1, title = Some ''Buy milk'', description = None,
               status = Some TODO, priority = Some MEDIUM, user_id = 1,
               created_at = Datetime 1000000, updated_at = Datetime 1000000\<rparr>"

definition ex_task2 :: Task where
  "ex_task2 = \<lparr>id_task = 2, title = Some ''Pay rent'', description = Some ''by Friday'',
               status = Some IN_PROGRESS, priority = Some HIGH, user_id = 2,
               created_at = Datetime 2000000, updated_at = Datetime 3000000\<rparr>"

definition ex_db :: Session where
  "ex_db = \<lparr>users = [ex_alice, ex_bob], tasks = [ex_task1, ex_task2], next_task_id = 3\<rparr>"

definition ex_done :: TaskUpdate where
  "ex_done = \<lparr>title_upd = None, description_upd = None, status_upd = Some (Some DONE),
              priority_upd = None\<rparr>"

definition ex_untitle :: TaskUpdate where
  "ex_untitle = \<lparr>title_upd = Some (Some []), description_upd = None, status_upd = None,
                 priority_upd = None\<rparr>"

definition ex_undescribe :: TaskUpdate where
  "ex_undescribe = \<lparr>title_upd = None, description_upd = Some None, status_upd = None,
                    priority_upd = None\<rparr>"

definition ex_todo :: TaskUpdate where
  "ex_todo = \<lparr>title_upd = None, description_upd = None, status_upd = Some (Some TODO),
              priority_upd = None\<rparr>"

definition ex_nothing :: TaskUpdate where
  "ex_nothing = \<lparr>title_upd = None, description_upd = None, status_upd = None,
                 priority_upd = None\<rparr>"

text \<open>
  A run of requests: the first user blanks the title of their task, the second user
  tries to update it, deletes their own task and creates a new one.
\<close>

definition ex_reqs :: "(request \<times> datetime) list" where
  "ex_reqs =
     [(UpdateTask 1 1 ex_untitle, Datetime 5000000),
      (UpdateTask 2 1 ex_done, Datetime 6000000),
      (DeleteTask 2 2, Datetime 7000000),
      (CreateTask 2 \<lparr>title_new = ''X'', description_new = None, priority_new = LOW\<rparr>,
         Datetime 8000000)]"

text \<open>An instant of issuance and an identity claim.\<close>

definition ex_issued :: datetime where
  "ex_issued = Datetime 1700000000250000"

definition ex_identity :: "unit claims" where
  "ex_identity = \<lparr>sub = Some ''a@example.com'', exp = None\<rparr>"

text \<open>The payload of a token without an expiry number: \<open>{"sub": "a@example.com", "exp": null}\<close>.\<close>

definition ex_null_exp :: "json claims" where
  "ex_null_exp = \<lparr>sub = Some ''a@example.com'', exp = Some JNull\<rparr>"

text \<open>
  Stand-ins for the keyed hash and the hash comparison, and the column rule that stamps
  a written row with the clock.
\<close>

definition onupdate_now :: "datetime \<Rightarrow> datetime \<Rightarrow> datetime" where
  "onupdate_now stored utcnow = utcnow"

definition ex_sign :: "string \<Rightarrow> string \<Rightarrow> json claims \<Rightarrow> string" where
  "ex_sign key algorithm p = key @ algorithm @ (case sub p of None \<Rightarrow> [] | Some e \<Rightarrow> e)"

definition ex_pwd_verify :: "string \<Rightarrow> string \<Rightarrow> bool" where
  "ex_pwd_verify plain hashed = (plain = hashed)"

section \<open>Properties\<close>

subsection \<open>Lists and the primary key\<close>

lemma find_map_comp: "find P (map g xs) = map_option g (find (\<lambda>x. P (g x)) xs)"
  by (induction xs) auto

lemma find_append_eq:
  "find P (xs @ ys) = (case find P xs of None \<Rightarrow> find P ys | Some x \<Rightarrow> Some x)"
  by (induction xs) auto

lemma distinct_key_eq:
  "distinct (map f xs) \<Longrightarrow> x \<in> set xs \<Longrightarrow> y \<in> set xs \<Longrightarrow> f x = f y \<Longrightarrow> x = y"
  by (meson distinct_map inj_on_eq_iff)

lemma get_task_SomeD:
  "get_task db tid uid = Some t \<Longrightarrow> t \<in> set (tasks db) \<and> id_task t = tid \<and> user_id t = uid"
  by (auto simp: get_task_def find_Some_iff)

lemma get_task_other_owner:
  assumes "db_inv db" "t \<in> set (tasks db)" "user_id t \<noteq> b"
  shows "get_task db (id_task t) b = None"
proof -
  have "\<not> (id_task r = id_task t \<and> user_id r = b)" if "r \<in> set (tasks db)" for r
    using assms that distinct_key_eq[of id_task "tasks db" r t] by (auto simp: db_inv_def)
  then show ?thesis by (auto simp: get_task_def find_None_iff)
qed

lemma get_tasks_subset: "set (get_tasks db b skip lim) \<subseteq> {r \<in> set (tasks db). user_id r = b}"
  by (auto simp: get_tasks_def limit_rows_def offset_rows_def dest!: in_set_takeD in_set_dropD split: if_splits)

lemma db_inv_fresh: "db_inv db \<Longrightarrow> r \<in> set (tasks db) \<Longrightarrow> id_task r < next_task_id db"
  by (auto simp: db_inv_def list_all_iff)

text \<open>The example session satisfies the primary key, and so does every empty session.\<close>

lemmas ex_defs = ex_db_def ex_task1_def ex_task2_def ex_alice_def ex_bob_def

lemma ex_db_inv: "db_inv ex_db"
  by (simp add: db_inv_def ex_defs)

lemma db_inv_empty: "db_inv \<lparr>users = us, tasks = [], next_task_id = n\<rparr>"
  by (simp add: db_inv_def)

subsection \<open>Ownership isolation\<close>

text \<open>
  C1. Let \<open>t\<close> be a task of owner \<open>a\<close> and \<open>b\<close> another owner. For \<open>b\<close>, reading,
  updating and deleting \<open>t\<close> by its identifier all return \<open>None\<close> (the routers' "Task not
  found") and leave the session as it was, exactly as they do for an identifier \<open>m\<close> that
  no task has; and no page of \<open>b\<close>'s task list contains \<open>t\<close>, whatever \<open>skip\<close> and \<open>lim\<close>
  are.
\<close>

theorem ownership_isolation:
  assumes "db_inv db" and "t \<in> set (tasks db)" and "user_id t = a" and "a \<noteq> b"
  shows "get_task db (id_task t) b = None \<and>
         update_task onupdate db (id_task t) upd b utcnow = (db, None) \<and>
         delete_task db (id_task t) b = (db, None) \<and>
         t \<notin> set (get_tasks db b skip lim) \<and>
         (m \<notin> id_task ` set (tasks db) \<longrightarrow>
            get_task db m b = get_task db (id_task t) b \<and>
            update_task onupdate db m upd b utcnow =
              update_task onupdate db (id_task t) upd b utcnow \<and>
            delete_task db m b = delete_task db (id_task t) b)"
proof -
  have g: "get_task db (id_task t) b = None"
    using assms by (intro get_task_other_owner) auto
  have n: "get_task db m b = None" if "m \<notin> id_task ` set (tasks db)"
    using that by (auto simp: get_task_def find_None_iff)
  have l: "t \<notin> set (get_tasks db b skip lim)"
    using get_tasks_subset[of db b skip lim] assms by auto
  show ?thesis using g n l by (simp add: update_task_def delete_task_def)
qed

text \<open>The theorem at the example session: the second user asks for the first user's task.\<close>

theorem ownership_isolation_witness:
  "db_inv ex_db \<and> ex_task1 \<in> set (tasks ex_db) \<and> user_id ex_task1 = 1 \<and> (1::int) \<noteq> 2 \<and>
   get_task ex_db 1 2 = None \<and>
   update_task onupdate_now ex_db 1 ex_done 2 (Datetime 5000000) = (ex_db, None) \<and>
   delete_task ex_db 1 2 = (ex_db, None) \<and>
   ex_task1 \<notin> set (get_tasks ex_db 2 0 100) \<and>
   7 \<notin> id_task ` set (tasks ex_db) \<and>
   get_task ex_db 7 2 = get_task ex_db 1 2 \<and>
   update_task onupdate_now ex_db 7 ex_done 2 (Datetime 5000000) =
     update_task onupdate_now ex_db 1 ex_done 2 (Datetime 5000000) \<and>
   delete_task ex_db 7 2 = delete_task ex_db 1 2"
proof -
  have h1: "db_inv ex_db" by (rule ex_db_inv)
  have h2: "ex_task1 \<in> set (tasks ex_db)" by (simp add: ex_db_def)
  have h3: "user_id ex_task1 = 1" by (simp add: ex_task1_def)
  have h4: "(1::int) \<noteq> 2" by simp
  have h5: "7 \<notin> id_task ` set (tasks ex_db)" by (simp add: ex_defs)
  have i: "id_task ex_task1 = 1" by (simp add: ex_task1_def)
  show ?thesis
    using ownership_isolation[OF h1 h2 h3 h4, of onupdate_now ex_done "Datetime 5000000" 0 100 7]
      h1 h2 h3 h5
    by (simp add: i)
qed

subsection \<open>Partial update\<close>

lemma foldl_setattr_dump:
  "foldl setattr t (model_dump_exclude_unset upd) =
     t\<lparr>title := (case title_upd upd of None \<Rightarrow> title t | Some v \<Rightarrow> v),
       description := (case description_upd upd of None \<Rightarrow> description t | Some v \<Rightarrow> v),
       status := (case status_upd upd of None \<Rightarrow> status t | Some v \<Rightarrow> v),
       priority := (case priority_upd upd of None \<Rightarrow> priority t | Some v \<Rightarrow> v)\<rparr>"
  by (simp add: model_dump_exclude_unset_def split: option.splits)

lemma foldl_setattr_frame:
  "id_task (foldl setattr t (model_dump_exclude_unset upd)) = id_task t"
  "user_id (foldl setattr t (model_dump_exclude_unset upd)) = user_id t"
  "created_at (foldl setattr t (model_dump_exclude_unset upd)) = created_at t"
  "updated_at (foldl setattr t (model_dump_exclude_unset upd)) = updated_at t"
  by (simp_all add: foldl_setattr_dump)

lemma update_task_eq:
  assumes "get_task db tid uid = Some t"
  shows "update_task onupdate db tid upd uid utcnow =
           (if foldl setattr t (model_dump_exclude_unset upd) = t then (db, Some t)
            else
              (db\<lparr>tasks := map (\<lambda>r. if id_task r = tid
                    then foldl setattr t (model_dump_exclude_unset upd)
                           \<lparr>updated_at := onupdate (updated_at t) utcnow\<rparr>
                    else r) (tasks db)\<rparr>,
               Some (foldl setattr t (model_dump_exclude_unset upd)
                       \<lparr>updated_at := onupdate (updated_at t) utcnow\<rparr>)))"
proof -
  have "id_task t = tid" using assms by (auto dest: get_task_SomeD)
  then show ?thesis
    using assms by (simp add: update_task_def commit_refresh_def Let_def foldl_setattr_frame)
qed

lemma get_task_replace:
  assumes "get_task db tid uid = Some t" and "id_task t' = tid" and "user_id t' = uid"
  shows "get_task (db\<lparr>tasks := map (\<lambda>r. if id_task r = tid then t' else r) (tasks db)\<rparr>) tid uid =
           Some t'"
proof -
  from assms(1) have t: "t \<in> set (tasks db)" "id_task t = tid"
    by (auto dest: get_task_SomeD)
  define g where "g = (\<lambda>r. if id_task r = tid then t' else r)"
  have P: "(id_task (g r) = tid \<and> user_id (g r) = uid) = (id_task r = tid)" for r
    using assms(2,3) by (simp add: g_def)
  obtain r where r: "find (\<lambda>r. id_task r = tid) (tasks db) = Some r"
    using t by (cases "find (\<lambda>r. id_task r = tid) (tasks db)") (auto simp: find_None_iff)
  then have "id_task r = tid" by (auto simp: find_Some_iff)
  then have gr: "g r = t'" by (simp add: g_def)
  have "get_task (db\<lparr>tasks := map g (tasks db)\<rparr>) tid uid =
          map_option g (find (\<lambda>r. id_task (g r) = tid \<and> user_id (g r) = uid) (tasks db))"
    by (simp add: get_task_def find_map_comp)
  also have "\<dots> = Some t'" by (simp only: P r gr option.map)
  finally show ?thesis by (simp add: g_def)
qed

lemma update_task_result:
  assumes "get_task db tid uid = Some t"
  shows "\<exists>db' t'. update_task onupdate db tid upd uid utcnow = (db', Some t') \<and>
           t' = (if foldl setattr t (model_dump_exclude_unset upd) = t then t
                 else foldl setattr t (model_dump_exclude_unset upd)
                        \<lparr>updated_at := onupdate (updated_at t) utcnow\<rparr>) \<and>
           db' = (if t' = t then db
                  else db\<lparr>tasks := map (\<lambda>r. if id_task r = tid then t' else r) (tasks db)\<rparr>) \<and>
           get_task db' tid uid = Some t'"
proof (cases "foldl setattr t (model_dump_exclude_unset upd) = t")
  case True
  then show ?thesis
    using assms by (simp add: update_task_eq[OF assms])
next
  case False
  let ?t' = "foldl setattr t (model_dump_exclude_unset upd)\<lparr>updated_at := onupdate (updated_at t) utcnow\<rparr>"
  have ne: "?t' \<noteq> t"
  proof
    assume "?t' = t"
    then have "title ?t' = title t" "description ?t' = description t" "status ?t' = status t"
        "priority ?t' = priority t"
      by simp_all
    then have "foldl setattr t (model_dump_exclude_unset upd) = t"
      by (simp add: foldl_setattr_dump)
    with False show False by simp
  qed
  have ids: "id_task ?t' = tid" "user_id ?t' = uid"
    using assms by (auto simp: foldl_setattr_frame dest: get_task_SomeD)
  have "get_task (db\<lparr>tasks := map (\<lambda>r. if id_task r = tid then ?t' else r) (tasks db)\<rparr>) tid uid =
          Some ?t'"
    by (rule get_task_replace[OF assms ids])
  then show ?thesis
    using False ne by (simp add: update_task_eq[OF assms])
qed

text \<open>
  C4 as the spec states it does not hold. The first user's task was last written at
  1000000; an update that sets no field, made at 5000000 under the rule that stamps a
  written row with the clock, returns the task with the timestamp 1000000, and so does
  an update that sets the status the task already has: the timestamp is not refreshed.
  And when the clock stands behind the stored timestamp, an update that does change the
  status takes the timestamp of the second user's task from 3000000 down to 2500000.
\<close>

theorem empty_update_counterexample:
  "get_task ex_db 1 1 = Some ex_task1 \<and>
   updated_at ex_task1 = Datetime 1000000 \<and>
   update_task onupdate_now ex_db 1 ex_nothing 1 (Datetime 5000000) = (ex_db, Some ex_task1) \<and>
   update_task onupdate_now ex_db 1 ex_todo 1 (Datetime 5000000) = (ex_db, Some ex_task1) \<and>
   get_task ex_db 2 2 = Some ex_task2 \<and>
   updated_at ex_task2 = Datetime 3000000 \<and>
   snd (update_task onupdate_now ex_db 2 ex_done 2 (Datetime 2500000)) =
     Some (ex_task2\<lparr>status := Some DONE, updated_at := Datetime 2500000\<rparr>)"
proof -
  have h1: "get_task ex_db 1 1 = Some ex_task1" by (simp add: get_task_def ex_defs)
  have h2: "get_task ex_db 2 2 = Some ex_task2" by (simp add: get_task_def ex_defs)
  have a: "update_task onupdate_now ex_db 1 ex_nothing 1 (Datetime 5000000) = (ex_db, Some ex_task1)"
    by (simp add: update_task_eq[OF h1] foldl_setattr_dump ex_nothing_def)
  have b: "update_task onupdate_now ex_db 1 ex_todo 1 (Datetime 5000000) = (ex_db, Some ex_task1)"
    by (simp add: update_task_eq[OF h1] foldl_setattr_dump ex_todo_def) (simp add: ex_task1_def)
  have c: "snd (update_task onupdate_now ex_db 2 ex_done 2 (Datetime 2500000)) =
     Some (ex_task2\<lparr>status := Some DONE, updated_at := Datetime 2500000\<rparr>)"
    by (simp add: update_task_eq[OF h2] foldl_setattr_dump ex_done_def onupdate_now_def)
       (simp add: ex_task2_def)
  show ?thesis
    using h1 h2 a b c by (simp add: ex_task1_def ex_task2_def)
qed

text \<open>
  C4, amended. For a task \<open>t\<close> of the caller, \<open>update_task\<close> returns \<open>t\<close> with exactly the
  fields that the payload sets replaced by the payload's values; every other business
  field, the identifier, the owner and the creation timestamp are as before. The function
  never assigns the updated-timestamp. When the payload changes no field, as a payload
  that sets none does, the task and the session stay as they are, the timestamp
  included. When it changes a field, the row is written and its timestamp is what the
  column's rule gives. The returned task is what the store then holds under that
  identifier.
\<close>

theorem partial_update:
  assumes "get_task db tid uid = Some t"
  shows "\<exists>db' t'. update_task onupdate db tid upd uid utcnow = (db', Some t') \<and>
           title t' = (case title_upd upd of None \<Rightarrow> title t | Some v \<Rightarrow> v) \<and>
           description t' = (case description_upd upd of None \<Rightarrow> description t | Some v \<Rightarrow> v) \<and>
           status t' = (case status_upd upd of None \<Rightarrow> status t | Some v \<Rightarrow> v) \<and>
           priority t' = (case priority_upd upd of None \<Rightarrow> priority t | Some v \<Rightarrow> v) \<and>
           id_task t' = id_task t \<and> user_id t' = user_id t \<and> created_at t' = created_at t \<and>
           updated_at t' =
             (if title t' = title t \<and> description t' = description t \<and> status t' = status t \<and>
                 priority t' = priority t
              then updated_at t else onupdate (updated_at t) utcnow) \<and>
           (title t' = title t \<and> description t' = description t \<and> status t' = status t \<and>
            priority t' = priority t \<longrightarrow> t' = t \<and> db' = db) \<and>
           (title_upd upd = None \<and> description_upd upd = None \<and> status_upd upd = None \<and>
            priority_upd upd = None \<longrightarrow> t' = t \<and> db' = db) \<and>
           db' = (if t' = t then db
                  else db\<lparr>tasks := map (\<lambda>r. if id_task r = tid then t' else r) (tasks db)\<rparr>) \<and>
           get_task db' tid uid = Some t'"
proof -
  let ?n = "foldl setattr t (model_dump_exclude_unset upd)"
  obtain db' t' where u: "update_task onupdate db tid upd uid utcnow = (db', Some t')"
    and t': "t' = (if ?n = t then t else ?n\<lparr>updated_at := onupdate (updated_at t) utcnow\<rparr>)"
    and db': "db' = (if t' = t then db
                  else db\<lparr>tasks := map (\<lambda>r. if id_task r = tid then t' else r) (tasks db)\<rparr>)"
    and g: "get_task db' tid uid = Some t'"
    using update_task_result[OF assms, of onupdate upd utcnow] by blast
  have same: "(?n = t) = (title ?n = title t \<and> description ?n = description t \<and>
      status ?n = status t \<and> priority ?n = priority t)"
  proof
    assume "?n = t"
    then show "title ?n = title t \<and> description ?n = description t \<and>
      status ?n = status t \<and> priority ?n = priority t"
      by simp
  next
    assume eq: "title ?n = title t \<and> description ?n = description t \<and>
      status ?n = status t \<and> priority ?n = priority t"
    have "?n = t\<lparr>title := title ?n, description := description ?n, status := status ?n,
                  priority := priority ?n\<rparr>"
      by (simp add: foldl_setattr_dump)
    also have "\<dots> = t" using eq by simp
    finally show "?n = t" .
  qed
  have f: "title t' = title ?n" "description t' = description ?n" "status t' = status ?n"
      "priority t' = priority ?n" "id_task t' = id_task t" "user_id t' = user_id t"
      "created_at t' = created_at t"
    by (auto simp: t' foldl_setattr_frame)
  have st: "updated_at t' =
             (if title t' = title t \<and> description t' = description t \<and> status t' = status t \<and>
                 priority t' = priority t
              then updated_at t else onupdate (updated_at t) utcnow)"
    unfolding f using same by (simp add: t')
  have e: "title_upd upd = None \<and> description_upd upd = None \<and> status_upd upd = None \<and>
            priority_upd upd = None \<longrightarrow> t' = t \<and> db' = db"
    by (simp add: t' db' foldl_setattr_dump)
  have nc: "title t' = title t \<and> description t' = description t \<and> status t' = status t \<and>
            priority t' = priority t \<longrightarrow> t' = t \<and> db' = db"
    unfolding f using same by (simp add: t' db')
  have v: "title ?n = (case title_upd upd of None \<Rightarrow> title t | Some v \<Rightarrow> v)"
      "description ?n = (case description_upd upd of None \<Rightarrow> description t | Some v \<Rightarrow> v)"
      "status ?n = (case status_upd upd of None \<Rightarrow> status t | Some v \<Rightarrow> v)"
      "priority ?n = (case priority_upd upd of None \<Rightarrow> priority t | Some v \<Rightarrow> v)"
    by (simp_all add: foldl_setattr_dump)
  show ?thesis
    using u f st e nc db' g unfolding v by blast
qed

text \<open>
  The theorem at the example session, under the rule that stamps a written row with
  the clock: set the status only, set nothing, and set the status the task has.
\<close>

theorem partial_update_witness:
  "get_task ex_db 1 1 = Some ex_task1 \<and>
   (\<exists>db'. update_task onupdate_now ex_db 1 ex_done 1 (Datetime 5000000) =
           (db', Some (ex_task1\<lparr>status := Some DONE, updated_at := Datetime 5000000\<rparr>)) \<and>
          get_task db' 1 1 = Some (ex_task1\<lparr>status := Some DONE, updated_at := Datetime 5000000\<rparr>)) \<and>
   update_task onupdate_now ex_db 1 ex_nothing 1 (Datetime 5000000) = (ex_db, Some ex_task1) \<and>
   update_task onupdate_now ex_db 1 ex_todo 1 (Datetime 5000000) = (ex_db, Some ex_task1)"
proof -
  have h: "get_task ex_db 1 1 = Some ex_task1" by (simp add: get_task_def ex_defs)
  obtain db' t' where a: "update_task onupdate_now ex_db 1 ex_done 1 (Datetime 5000000) = (db', Some t')"
    and s: "status t' = (case status_upd ex_done of None \<Rightarrow> status ex_task1 | Some v \<Rightarrow> v)"
    and f: "title t' = (case title_upd ex_done of None \<Rightarrow> title ex_task1 | Some v \<Rightarrow> v)"
      "description t' =
         (case description_upd ex_done of None \<Rightarrow> description ex_task1 | Some v \<Rightarrow> v)"
      "priority t' = (case priority_upd ex_done of None \<Rightarrow> priority ex_task1 | Some v \<Rightarrow> v)"
      "id_task t' = id_task ex_task1" "user_id t' = user_id ex_task1"
      "created_at t' = created_at ex_task1"
    and c: "updated_at t' =
             (if title t' = title ex_task1 \<and> description t' = description ex_task1 \<and>
                 status t' = status ex_task1 \<and> priority t' = priority ex_task1
              then updated_at ex_task1 else onupdate_now (updated_at ex_task1) (Datetime 5000000))"
    and g: "get_task db' 1 1 = Some t'"
    using partial_update[OF h, of onupdate_now ex_done "Datetime 5000000"] by blast
  have "status t' = Some DONE" "status ex_task1 = Some TODO"
    using s by (simp_all add: ex_done_def ex_task1_def)
  then have "updated_at t' = Datetime 5000000"
    using c by (simp add: onupdate_now_def)
  then have t': "t' = ex_task1\<lparr>status := Some DONE, updated_at := Datetime 5000000\<rparr>"
    using f \<open>status t' = Some DONE\<close> by (cases t') (simp add: ex_task1_def ex_done_def)
  obtain db2 t2 where a2: "update_task onupdate_now ex_db 1 ex_nothing 1 (Datetime 5000000) = (db2, Some t2)"
    and e2: "title_upd ex_nothing = None \<and> description_upd ex_nothing = None \<and>
             status_upd ex_nothing = None \<and> priority_upd ex_nothing = None \<longrightarrow>
             t2 = ex_task1 \<and> db2 = ex_db"
    using partial_update[OF h, of onupdate_now ex_nothing "Datetime 5000000"] by blast
  have n2: "t2 = ex_task1 \<and> db2 = ex_db"
    using e2 by (simp add: ex_nothing_def)
  obtain db3 t3 where a3: "update_task onupdate_now ex_db 1 ex_todo 1 (Datetime 5000000) = (db3, Some t3)"
    and s3: "status t3 = (case status_upd ex_todo of None \<Rightarrow> status ex_task1 | Some v \<Rightarrow> v)"
      "title t3 = (case title_upd ex_todo of None \<Rightarrow> title ex_task1 | Some v \<Rightarrow> v)"
      "description t3 =
         (case description_upd ex_todo of None \<Rightarrow> description ex_task1 | Some v \<Rightarrow> v)"
      "priority t3 = (case priority_upd ex_todo of None \<Rightarrow> priority ex_task1 | Some v \<Rightarrow> v)"
    and e3: "title t3 = title ex_task1 \<and> description t3 = description ex_task1 \<and>
             status t3 = status ex_task1 \<and> priority t3 = priority ex_task1 \<longrightarrow>
             t3 = ex_task1 \<and> db3 = ex_db"
    using partial_update[OF h, of onupdate_now ex_todo "Datetime 5000000"] by blast
  have "title t3 = title ex_task1 \<and> description t3 = description ex_task1 \<and>
             status t3 = status ex_task1 \<and> priority t3 = priority ex_task1"
    using s3 by (simp add: ex_todo_def ex_task1_def)
  then have n3: "t3 = ex_task1 \<and> db3 = ex_db"
    using e3 by blast
  show ?thesis
    using h a g a2 n2 a3 n3 by (simp add: t')
qed

subsection \<open>Update does not validate\<close>

lemma TaskCreate_validate_Inr:
  "TaskCreate_validate ttl desc prio = Inr task \<longleftrightarrow>
     ttl \<noteq> [] \<and> length ttl \<le> 200 \<and> (\<forall>d. desc = Some d \<longrightarrow> length d \<le> 1000) \<and>
     task = \<lparr>title_new = ttl, description_new = desc,
             priority_new = (case prio of None \<Rightarrow> MEDIUM | Some q \<Rightarrow> q)\<rparr>"
  by (auto simp: TaskCreate_validate_def split: option.splits)

text \<open>
  C9. For a task of the caller, an update that sets the title (or the description)
  stores the given value as it is, the explicit null and the empty string included: the
  returned and stored task has that value. So an update whose title is the empty string
  yields a task with the empty title, which the validation of a create request refuses.
\<close>

theorem update_verbatim:
  assumes "get_task db tid uid = Some t"
  shows "(\<forall>v. title_upd upd = Some v \<longrightarrow>
            (\<exists>db' t'. update_task onupdate db tid upd uid utcnow = (db', Some t') \<and> title t' = v \<and>
               get_task db' tid uid = Some t')) \<and>
         (\<forall>v. description_upd upd = Some v \<longrightarrow>
            (\<exists>db' t'. update_task onupdate db tid upd uid utcnow = (db', Some t') \<and>
               description t' = v \<and> get_task db' tid uid = Some t')) \<and>
         (\<exists>db' t'. update_task onupdate db tid (upd\<lparr>title_upd := Some (Some [])\<rparr>) uid utcnow =
              (db', Some t') \<and>
            title t' = Some [] \<and> get_task db' tid uid = Some t') \<and>
         TaskCreate_validate [] d p = Inl string_too_short"
proof -
  have g: "\<exists>db' t'. update_task onupdate db tid u uid utcnow = (db', Some t') \<and>
             title t' = title (foldl setattr t (model_dump_exclude_unset u)) \<and>
             description t' = description (foldl setattr t (model_dump_exclude_unset u)) \<and>
             get_task db' tid uid = Some t'" for u
  proof -
    obtain db' t' where "update_task onupdate db tid u uid utcnow = (db', Some t')"
      and "t' = (if foldl setattr t (model_dump_exclude_unset u) = t then t
                 else foldl setattr t (model_dump_exclude_unset u)
                        \<lparr>updated_at := onupdate (updated_at t) utcnow\<rparr>)"
      and "get_task db' tid uid = Some t'"
      using update_task_result[OF assms, of onupdate u utcnow] by blast
    then show ?thesis by (cases "foldl setattr t (model_dump_exclude_unset u) = t") auto
  qed
  show ?thesis
    using g[of upd] g[of "upd\<lparr>title_upd := Some (Some [])\<rparr>"]
    by (auto simp: foldl_setattr_dump TaskCreate_validate_def)
qed

text \<open>
  The theorem at the example session: the first user blanks the title of their task, the
  second user sets the description of theirs to null.
\<close>

theorem update_verbatim_witness:
  "get_task ex_db 1 1 = Some ex_task1 \<and> title_upd ex_untitle = Some (Some []) \<and>
   snd (update_task onupdate_now ex_db 1 ex_untitle 1 (Datetime 5000000)) =
     Some (ex_task1\<lparr>title := Some [], updated_at := Datetime 5000000\<rparr>) \<and>
   get_task (fst (update_task onupdate_now ex_db 1 ex_untitle 1 (Datetime 5000000))) 1 1 =
     Some (ex_task1\<lparr>title := Some [], updated_at := Datetime 5000000\<rparr>) \<and>
   get_task ex_db 2 2 = Some ex_task2 \<and> description_upd ex_undescribe = Some None \<and>
   snd (update_task onupdate_now ex_db 2 ex_undescribe 2 (Datetime 5000000)) =
     Some (ex_task2\<lparr>description := None, updated_at := Datetime 5000000\<rparr>) \<and>
   get_task (fst (update_task onupdate_now ex_db 2 ex_undescribe 2 (Datetime 5000000))) 2 2 =
     Some (ex_task2\<lparr>description := None, updated_at := Datetime 5000000\<rparr>)"
proof -
  have h: "get_task ex_db 1 1 = Some ex_task1" by (simp add: get_task_def ex_defs)
  have u: "title_upd ex_untitle = Some (Some [])" by (simp add: ex_untitle_def)
  have s: "snd (update_task onupdate_now ex_db 1 ex_untitle 1 (Datetime 5000000)) =
     Some (ex_task1\<lparr>title := Some [], updated_at := Datetime 5000000\<rparr>)"
    by (simp add: update_task_eq[OF h] foldl_setattr_dump ex_untitle_def onupdate_now_def)
       (simp add: ex_task1_def)
  obtain db' t' where a: "update_task onupdate_now ex_db 1 ex_untitle 1 (Datetime 5000000) = (db', Some t')"
      and b: "get_task db' 1 1 = Some t'"
    using update_verbatim[OF h, of ex_untitle onupdate_now "Datetime 5000000" None None] u by blast
  have h2: "get_task ex_db 2 2 = Some ex_task2" by (simp add: get_task_def ex_defs)
  have u2: "description_upd ex_undescribe = Some None" by (simp add: ex_undescribe_def)
  have s2: "snd (update_task onupdate_now ex_db 2 ex_undescribe 2 (Datetime 5000000)) =
     Some (ex_task2\<lparr>description := None, updated_at := Datetime 5000000\<rparr>)"
    by (simp add: update_task_eq[OF h2] foldl_setattr_dump ex_undescribe_def onupdate_now_def)
       (simp add: ex_task2_def)
  obtain db2 t2 where a2: "update_task onupdate_now ex_db 2 ex_undescribe 2 (Datetime 5000000) = (db2, Some t2)"
      and b2: "get_task db2 2 2 = Some t2"
    using update_verbatim[OF h2, of ex_undescribe onupdate_now "Datetime 5000000" None None] u2 by blast
  show ?thesis
    using a b h u s a2 b2 h2 u2 s2 by simp
qed

subsection \<open>Create\<close>

lemma create_task_eq:
  "create_task db task owner utcnow =
     (db\<lparr>tasks := tasks db @ [\<lparr>id_task = next_task_id db, title = Some (title_new task),
          description = description_new task, status = Some TODO,
          priority = Some (priority_new task), user_id = owner,
          created_at = utcnow, updated_at = utcnow\<rparr>],
         next_task_id := next_task_id db + 1\<rparr>,
      \<lparr>id_task = next_task_id db, title = Some (title_new task),
          description = description_new task, status = Some TODO,
          priority = Some (priority_new task), user_id = owner,
          created_at = utcnow, updated_at = utcnow\<rparr>)"
  by (simp add: create_task_def add_commit_refresh_def Let_def)

lemma db_inv_create: "db_inv db \<Longrightarrow> db_inv (fst (create_task db task owner utcnow))"
  by (auto simp: create_task_eq db_inv_def list_all_iff)

text \<open>
  C5. A created task has the status \<open>TODO\<close>, the priority of the request, which is
  \<open>MEDIUM\<close> when a validated request gave none, equal creation and update timestamps, and
  an identifier that no stored task has; reading that identifier for the same owner
  afterwards returns the created task, equal in every field.
\<close>

theorem create_postcondition:
  assumes "db_inv db" and "create_task db task owner utcnow = (db', t)"
  shows "status t = Some TODO \<and>
         priority t = Some (priority_new task) \<and>
         (\<forall>ttl desc. TaskCreate_validate ttl desc None = Inr task \<longrightarrow> priority t = Some MEDIUM) \<and>
         created_at t = updated_at t \<and> created_at t = utcnow \<and>
         title t = Some (title_new task) \<and> description t = description_new task \<and>
         user_id t = owner \<and>
         id_task t = next_task_id db \<and>
         id_task t \<notin> id_task ` set (tasks db) \<and>
         tasks db' = tasks db @ [t] \<and>
         get_task db' (id_task t) owner = Some t \<and>
         db_inv db'"
proof -
  have fresh: "id_task r \<noteq> next_task_id db" if "r \<in> set (tasks db)" for r
    using db_inv_fresh[OF assms(1) that] by simp
  have t: "t = \<lparr>id_task = next_task_id db, title = Some (title_new task),
                 description = description_new task, status = Some TODO,
                 priority = Some (priority_new task),
                 user_id = owner, created_at = utcnow, updated_at = utcnow\<rparr>"
    and db': "db' = db\<lparr>tasks := tasks db @ [t], next_task_id := next_task_id db + 1\<rparr>"
    using assms(2) by (auto simp: create_task_eq)
  have none: "find (\<lambda>r. id_task r = next_task_id db \<and> user_id r = owner) (tasks db) = None"
    using fresh by (auto simp: find_None_iff)
  have g: "get_task db' (id_task t) owner = Some t"
    by (simp add: get_task_def db' t find_append_eq none)
  have inv: "db_inv db'"
    using db_inv_create[OF assms(1), of task owner utcnow] assms(2) by simp
  have idt: "id_task t = next_task_id db" by (simp add: t)
  have nin: "id_task t \<notin> id_task ` set (tasks db)"
  proof
    assume "id_task t \<in> id_task ` set (tasks db)"
    then obtain r where "r \<in> set (tasks db)" and "id_task r = id_task t" by auto
    with fresh[of r] idt show False by simp
  qed
  have d: "\<forall>ttl desc. TaskCreate_validate ttl desc None = Inr task \<longrightarrow> priority t = Some MEDIUM"
    by (auto simp: TaskCreate_validate_Inr t)
  show ?thesis using g inv nin d by (simp add: db') (simp add: t)
qed

text \<open>The theorem at the example session: the first user creates the task "X".\<close>

theorem create_postcondition_witness:
  "db_inv ex_db \<and>
   TaskCreate_validate ''X'' None None =
     Inr \<lparr>title_new = ''X'', description_new = None, priority_new = MEDIUM\<rparr> \<and>
   (\<exists>db'. create_task ex_db \<lparr>title_new = ''X'', description_new = None, priority_new = MEDIUM\<rparr>
            1 (Datetime 9000000) =
           (db', \<lparr>id_task = 3, title = Some ''X'', description = None, status = Some TODO,
                  priority = Some MEDIUM, user_id = 1, created_at = Datetime 9000000,
                  updated_at = Datetime 9000000\<rparr>) \<and>
          get_task db' 3 1 =
            Some \<lparr>id_task = 3, title = Some ''X'', description = None, status = Some TODO,
                  priority = Some MEDIUM, user_id = 1, created_at = Datetime 9000000,
                  updated_at = Datetime 9000000\<rparr>)"
proof -
  have h1: "db_inv ex_db" by (rule ex_db_inv)
  have h2: "TaskCreate_validate ''X'' None None =
     Inr \<lparr>title_new = ''X'', description_new = None, priority_new = MEDIUM\<rparr>"
    by (simp add: TaskCreate_validate_def)
  obtain db' t where h3: "create_task ex_db \<lparr>title_new = ''X'', description_new = None, priority_new = MEDIUM\<rparr>
            1 (Datetime 9000000) = (db', t)"
    by (cases "create_task ex_db \<lparr>title_new = ''X'', description_new = None, priority_new = MEDIUM\<rparr>
            1 (Datetime 9000000)")
  have t: "t = \<lparr>id_task = 3, title = Some ''X'', description = None, status = Some TODO,
                  priority = Some MEDIUM, user_id = 1, created_at = Datetime 9000000,
                  updated_at = Datetime 9000000\<rparr>"
    using h3 by (auto simp: create_task_eq ex_db_def)
  show ?thesis
    using create_postcondition[OF h1 h3] h1 h2 h3 by (simp add: t)
qed

subsection \<open>Delete\<close>

text \<open>
  C6. Deleting a task \<open>t\<close> of the caller returns \<open>t\<close> as it was stored and removes its
  row: the table afterwards is the old table without the rows of that identifier, and
  reading the identifier, for the same owner or any other, returns \<open>None\<close>.
\<close>

theorem delete_semantics:
  assumes "get_task db tid uid = Some t"
  shows "\<exists>db'. delete_task db tid uid = (db', Some t) \<and>
           get_task db' tid uid = None \<and>
           tid \<notin> id_task ` set (tasks db') \<and>
           tasks db' = filter (\<lambda>r. id_task r \<noteq> tid) (tasks db) \<and>
           users db' = users db \<and> next_task_id db' = next_task_id db \<and>
           (\<forall>uid'. get_task db' tid uid' = None)"
proof -
  have tid: "id_task t = tid" using assms by (auto dest: get_task_SomeD)
  have d: "delete_task db tid uid = (db\<lparr>tasks := filter (\<lambda>r. id_task r \<noteq> tid) (tasks db)\<rparr>, Some t)"
    using assms tid by (simp add: delete_task_def delete_commit_def)
  have g: "get_task (db\<lparr>tasks := filter (\<lambda>r. id_task r \<noteq> tid) (tasks db)\<rparr>) tid u = None" for u
    by (auto simp: get_task_def find_None_iff)
  show ?thesis unfolding d using g by auto
qed

text \<open>The theorem at the example session: the second user deletes their task.\<close>

theorem delete_semantics_witness:
  "get_task ex_db 2 2 = Some ex_task2 \<and>
   snd (delete_task ex_db 2 2) = Some ex_task2 \<and>
   tasks (fst (delete_task ex_db 2 2)) = [ex_task1] \<and>
   get_task (fst (delete_task ex_db 2 2)) 2 2 = None"
proof -
  have h: "get_task ex_db 2 2 = Some ex_task2" by (simp add: get_task_def ex_defs)
  have "tasks ex_db = [ex_task1, ex_task2]" "id_task ex_task1 = 1" "id_task ex_task2 = 2"
    by (simp_all add: ex_defs)
  then show ?thesis
    using delete_semantics[OF h] h by auto
qed

subsection \<open>The owner of a task\<close>

lemma keeps_ownersI:
  assumes "next_task_id db \<le> next_task_id db'"
    and "\<And>r'. r' \<in> set (tasks db') \<Longrightarrow> id_task r' < next_task_id db \<Longrightarrow>
           \<exists>r \<in> set (tasks db). id_task r = id_task r' \<and> user_id r = user_id r'"
  shows "keeps_owners db db'"
  using assms by (auto simp: keeps_owners_def list_all_iff list_ex_iff)

lemma keeps_ownersD:
  assumes "keeps_owners db db'" and "r' \<in> set (tasks db')" and "id_task r' < next_task_id db"
  shows "\<exists>r \<in> set (tasks db). id_task r = id_task r' \<and> user_id r = user_id r'"
  using assms by (auto simp: keeps_owners_def list_all_iff list_ex_iff)

lemma keeps_owners_next: "keeps_owners db db' \<Longrightarrow> next_task_id db \<le> next_task_id db'"
  by (simp add: keeps_owners_def)

lemma keeps_owners_refl: "keeps_owners db db"
  by (rule keeps_ownersI) auto

lemma keeps_owners_trans:
  assumes "keeps_owners a b" and "keeps_owners b c"
  shows "keeps_owners a c"
proof (rule keeps_ownersI)
  show "next_task_id a \<le> next_task_id c"
    using keeps_owners_next[OF assms(1)] keeps_owners_next[OF assms(2)] by simp
next
  fix r'' assume r'': "r'' \<in> set (tasks c)" "id_task r'' < next_task_id a"
  then have "id_task r'' < next_task_id b"
    using keeps_owners_next[OF assms(1)] by simp
  then obtain r' where r': "r' \<in> set (tasks b)" "id_task r' = id_task r''" "user_id r' = user_id r''"
    using keeps_ownersD[OF assms(2) r''(1)] by auto
  then obtain r where "r \<in> set (tasks a)" "id_task r = id_task r'" "user_id r = user_id r'"
    using keeps_ownersD[OF assms(1) r'(1)] r''(2) by auto
  then show "\<exists>r \<in> set (tasks a). id_task r = id_task r'' \<and> user_id r = user_id r''"
    using r' by auto
qed

lemma keeps_owners_create: "keeps_owners db (fst (create_task db task owner utcnow))"
  by (rule keeps_ownersI) (auto simp: create_task_eq)

lemma update_task_next:
  "next_task_id (fst (update_task onupdate db tid upd uid utcnow)) = next_task_id db"
proof (cases "get_task db tid uid")
  case None
  then show ?thesis by (simp add: update_task_def)
next
  case (Some t)
  show ?thesis by (simp add: update_task_eq[OF Some])
qed

lemma update_task_ids:
  "map id_task (tasks (fst (update_task onupdate db tid upd uid utcnow))) = map id_task (tasks db)"
proof (cases "get_task db tid uid")
  case None
  then show ?thesis by (simp add: update_task_def)
next
  case (Some t)
  then have "id_task t = tid" by (auto dest: get_task_SomeD)
  then show ?thesis
    by (simp add: update_task_eq[OF Some] foldl_setattr_frame)
qed

lemma update_task_owners:
  assumes "db_inv db"
  shows "map user_id (tasks (fst (update_task onupdate db tid upd uid utcnow))) = map user_id (tasks db)"
proof (cases "get_task db tid uid")
  case None
  then show ?thesis by (simp add: update_task_def)
next
  case (Some t)
  then have t: "t \<in> set (tasks db)" "id_task t = tid" by (auto dest: get_task_SomeD)
  have "user_id r = user_id t" if "r \<in> set (tasks db)" "id_task r = tid" for r
    using distinct_key_eq[of id_task "tasks db" r t] assms t that by (auto simp: db_inv_def)
  then show ?thesis
    by (simp add: update_task_eq[OF Some] foldl_setattr_frame)
qed

lemma db_inv_update:
  assumes "db_inv db"
  shows "db_inv (fst (update_task onupdate db tid upd uid utcnow))"
proof -
  let ?db' = "fst (update_task onupdate db tid upd uid utcnow)"
  have n: "next_task_id ?db' = next_task_id db"
    by (rule update_task_next)
  have "list_all (\<lambda>t. id_task t < next_task_id db) (tasks db) =
        list_all (\<lambda>i. i < next_task_id db) (map id_task (tasks db))"
    by (simp add: list_all_iff)
  moreover have "list_all (\<lambda>t. id_task t < next_task_id db) (tasks ?db') =
        list_all (\<lambda>i. i < next_task_id db) (map id_task (tasks ?db'))"
    by (simp add: list_all_iff)
  ultimately show ?thesis
    using assms unfolding db_inv_def n update_task_ids by simp
qed

lemma keeps_owners_update:
  assumes "db_inv db"
  shows "keeps_owners db (fst (update_task onupdate db tid upd uid utcnow))"
proof (rule keeps_ownersI)
  let ?db' = "fst (update_task onupdate db tid upd uid utcnow)"
  show "next_task_id db \<le> next_task_id ?db'"
    by (simp add: update_task_next)
  fix r' assume "r' \<in> set (tasks ?db')"
  then obtain i where i: "i < length (tasks ?db')" "r' = tasks ?db' ! i"
    by (auto simp: in_set_conv_nth)
  have l: "length (tasks ?db') = length (tasks db)"
    using arg_cong[OF update_task_ids[of onupdate db tid upd uid utcnow], of length] by simp
  have "id_task (tasks db ! i) = id_task r'"
    using arg_cong[OF update_task_ids[of onupdate db tid upd uid utcnow], of "\<lambda>xs. xs ! i"] i l by simp
  moreover have "user_id (tasks db ! i) = user_id r'"
    using arg_cong[OF update_task_owners[OF assms, of onupdate tid upd uid utcnow], of "\<lambda>xs. xs ! i"] i l
    by simp
  ultimately show "\<exists>r \<in> set (tasks db). id_task r = id_task r' \<and> user_id r = user_id r'"
    using i l by (auto intro!: bexI[of _ "tasks db ! i"])
qed

lemma delete_task_tasks:
  "\<exists>P. tasks (fst (delete_task db tid uid)) = filter P (tasks db) \<and>
       next_task_id (fst (delete_task db tid uid)) = next_task_id db"
  by (cases "get_task db tid uid")
     (auto simp: delete_task_def delete_commit_def intro: exI[of _ "\<lambda>_. True"])

lemma db_inv_delete:
  assumes "db_inv db"
  shows "db_inv (fst (delete_task db tid uid))"
proof -
  obtain P where "tasks (fst (delete_task db tid uid)) = filter P (tasks db)"
    and "next_task_id (fst (delete_task db tid uid)) = next_task_id db"
    using delete_task_tasks by blast
  then show ?thesis
    using assms by (auto simp: db_inv_def list_all_iff distinct_map_filter)
qed

lemma keeps_owners_delete: "keeps_owners db (fst (delete_task db tid uid))"
proof -
  obtain P where "tasks (fst (delete_task db tid uid)) = filter P (tasks db)"
    and "next_task_id (fst (delete_task db tid uid)) = next_task_id db"
    using delete_task_tasks by blast
  then show ?thesis by (intro keeps_ownersI) auto
qed

lemma handle_inv:
  assumes "db_inv db"
  shows "db_inv (handle onupdate db rq) \<and> keeps_owners db (handle onupdate db rq)"
proof (cases rq)
  case (Pair r utcnow)
  show ?thesis
    using assms unfolding Pair
    by (cases r)
       (simp_all add: keeps_owners_refl db_inv_create keeps_owners_create db_inv_update
          keeps_owners_update db_inv_delete keeps_owners_delete)
qed

lemma serve_inv:
  "db_inv db \<Longrightarrow> db_inv (serve onupdate db reqs) \<and> keeps_owners db (serve onupdate db reqs)"
proof (induction reqs arbitrary: db)
  case Nil
  then show ?case by (simp add: serve_def keeps_owners_refl)
next
  case (Cons rq reqs)
  have h: "db_inv (handle onupdate db rq)" "keeps_owners db (handle onupdate db rq)"
    using handle_inv[OF Cons.prems] by auto
  have "db_inv (serve onupdate (handle onupdate db rq) reqs)"
    "keeps_owners (handle onupdate db rq) (serve onupdate (handle onupdate db rq) reqs)"
    using Cons.IH[OF h(1)] by auto
  then show ?case
    using h(2) by (auto simp: serve_def intro: keeps_owners_trans)
qed

text \<open>
  C7. The owner of a task is the owner given to \<open>create_task\<close>, and no run of requests
  changes it: a task found after the run under the identifier of a task \<open>t\<close> of the
  session before the run has the owner of \<open>t\<close>. In particular an update, whatever its
  payload, leaves the identifier and the owner of every row as they were, and the task
  it returns has the identifier and the owner of the task that was read.
\<close>

theorem owner_immutable:
  assumes "db_inv db" and "t \<in> set (tasks db)"
  shows "(\<forall>t' \<in> set (tasks (serve onupdate db reqs)).
            id_task t' = id_task t \<longrightarrow> user_id t' = user_id t) \<and>
         map id_task (tasks (fst (update_task onupdate db tid upd uid utcnow))) =
           map id_task (tasks db) \<and>
         map user_id (tasks (fst (update_task onupdate db tid upd uid utcnow))) =
           map user_id (tasks db) \<and>
         (\<forall>t'. snd (update_task onupdate db tid upd uid utcnow) = Some t' \<longrightarrow>
            (\<exists>t0. get_task db tid uid = Some t0 \<and> id_task t' = id_task t0 \<and>
               user_id t' = user_id t0)) \<and>
         user_id (snd (create_task db task owner utcnow)) = owner"
proof -
  have a: "user_id t' = user_id t"
    if tin: "t' \<in> set (tasks (serve onupdate db reqs))" and same: "id_task t' = id_task t" for t'
  proof -
    have lt: "id_task t' < next_task_id db"
      using db_inv_fresh[OF assms] same by simp
    have k: "keeps_owners db (serve onupdate db reqs)"
      using serve_inv[OF assms(1), of onupdate reqs] by simp
    obtain r where r: "r \<in> set (tasks db)" "id_task r = id_task t'" "user_id r = user_id t'"
      using keeps_ownersD[OF k tin lt] by auto
    then have "r = t"
      using distinct_key_eq[of id_task "tasks db" r t] assms same by (auto simp: db_inv_def)
    then show ?thesis using r by simp
  qed
  have b: "\<exists>t0. get_task db tid uid = Some t0 \<and> id_task t' = id_task t0 \<and> user_id t' = user_id t0"
    if "snd (update_task onupdate db tid upd uid utcnow) = Some t'" for t'
  proof (cases "get_task db tid uid")
    case None
    then show ?thesis using that by (simp add: update_task_def)
  next
    case (Some t0)
    then show ?thesis
      using that by (auto simp: update_task_eq[OF Some] foldl_setattr_frame split: if_splits)
  qed
  show ?thesis
    using a b update_task_ids update_task_owners[OF assms(1)]
    by (simp add: create_task_eq)
qed

text \<open>The theorem at the example session and the example run.\<close>

lemma ex_serve:
  "map (\<lambda>r. (id_task r, user_id r, title r, status r)) (tasks (serve onupdate_now ex_db ex_reqs)) =
     [(1, 1, Some [], Some TODO), (3, 2, Some ''X'', Some TODO)]"
  by (simp add: serve_def ex_reqs_def ex_defs update_task_def delete_task_def get_task_def
        commit_refresh_def delete_commit_def create_task_eq ex_untitle_def ex_done_def
        model_dump_exclude_unset_def onupdate_now_def Let_def)

theorem owner_immutable_witness:
  "db_inv ex_db \<and> ex_task1 \<in> set (tasks ex_db) \<and>
   map (\<lambda>r. (id_task r, user_id r)) (tasks (serve onupdate_now ex_db ex_reqs)) = [(1, 1), (3, 2)] \<and>
   user_id (hd (tasks (serve onupdate_now ex_db ex_reqs))) = user_id ex_task1 \<and>
   map id_task (tasks (fst (update_task onupdate_now ex_db 1 ex_untitle 1 (Datetime 5000000)))) = [1, 2] \<and>
   map user_id (tasks (fst (update_task onupdate_now ex_db 1 ex_untitle 1 (Datetime 5000000)))) = [1, 2] \<and>
   get_task ex_db 1 1 = Some ex_task1 \<and>
   snd (update_task onupdate_now ex_db 1 ex_untitle 1 (Datetime 5000000)) =
     Some (ex_task1\<lparr>title := Some [], updated_at := Datetime 5000000\<rparr>) \<and>
   id_task (ex_task1\<lparr>title := Some [], updated_at := Datetime 5000000\<rparr>) = id_task ex_task1 \<and>
   user_id (ex_task1\<lparr>title := Some [], updated_at := Datetime 5000000\<rparr>) = user_id ex_task1"
proof -
  have h1: "db_inv ex_db" by (rule ex_db_inv)
  have h2: "ex_task1 \<in> set (tasks ex_db)" by (simp add: ex_db_def)
  have m: "map (\<lambda>r. (id_task r, user_id r)) (tasks (serve onupdate_now ex_db ex_reqs)) = [(1, 1), (3, 2)]"
    using arg_cong[OF ex_serve, of "map (\<lambda>(i, u, _). (i, u))"] by (simp add: comp_def)
  then obtain r rs where rs: "tasks (serve onupdate_now ex_db ex_reqs) = r # rs" by auto
  then have r: "r \<in> set (tasks (serve onupdate_now ex_db ex_reqs))" "id_task r = id_task ex_task1"
    using m by (auto simp: ex_task1_def)
  have o: "map id_task (tasks ex_db) = [1, 2]" "map user_id (tasks ex_db) = [1, 2]"
    by (simp_all add: ex_defs)
  have g: "get_task ex_db 1 1 = Some ex_task1" by (simp add: get_task_def ex_defs)
  have s: "snd (update_task onupdate_now ex_db 1 ex_untitle 1 (Datetime 5000000)) =
     Some (ex_task1\<lparr>title := Some [], updated_at := Datetime 5000000\<rparr>)"
    by (simp add: update_task_eq[OF g] foldl_setattr_dump ex_untitle_def onupdate_now_def)
       (simp add: ex_task1_def)
  show ?thesis
    using owner_immutable[OF h1 h2, of onupdate_now ex_reqs 1 ex_untitle 1 "Datetime 5000000"]
      h1 h2 m r rs o g s
    by auto
qed

subsection \<open>Authentication by password\<close>

lemma authenticate_user_eq:
  "authenticate_user pwd_verify db e password =
     (case get_user_by_email db e of
        None \<Rightarrow> Inr None
      | Some user \<Rightarrow>
          if CHR 0x00 \<in> set password then Inl PasswordValueError
          else if pwd_verify password (hashed_password user) then Inr (Some user)
          else Inr None)"
  by (simp add: authenticate_user_def verify_password_def pwd_context_verify_def
        split: option.splits)

text \<open>
  C10 holds for the passwords that passlib takes, and the code breaks it for the others.
  A password with a NUL character makes \<open>pwd_context.verify\<close> raise. The call is reached
  only when a user has the email, and \<open>authenticate_user\<close> has no handler around it: for
  the registered email of the example session the exception leaves the function, for an
  email that no user has the same password gives \<open>None\<close>. A password without NUL gives
  \<open>None\<close> on both failure paths.
\<close>

theorem nul_password_raises:
  "authenticate_user pwd_verify ex_db ''a@example.com'' (''pw'' @ [CHR 0x00]) =
     Inl PasswordValueError \<and>
   authenticate_user pwd_verify ex_db ''nobody@example.com'' (''pw'' @ [CHR 0x00]) = Inr None \<and>
   authenticate_user ex_pwd_verify ex_db ''a@example.com'' ''wrongpassword'' = Inr None \<and>
   authenticate_user ex_pwd_verify ex_db ''nobody@example.com'' ''wrongpassword'' = Inr None"
  by (simp add: authenticate_user_eq get_user_by_email_def ex_defs ex_pwd_verify_def)

subsection \<open>Issuing tokens\<close>

lemma timegm_dt_add_minutes: "timegm (dt_add d (timedelta_minutes m)) = timegm d + m * 60"
proof -
  have "(micros d + (m * 60) * 1000000) div 1000000 = m * 60 + micros d div 1000000"
    by (rule div_mult_self1) simp
  moreover have "m * 60000000 = (m * 60) * 1000000" by simp
  ultimately show ?thesis
    by (simp only: timegm_def dt_add_def timedelta_minutes_def datetime.sel timedelta.sel add.commute)
qed

lemma create_access_token_eq:
  "create_access_token sign data expires_delta utcnow =
     (let expire = dt_add utcnow
            (case expires_delta of None \<Rightarrow> timedelta_minutes 15
             | Some d \<Rightarrow> if td_micros d \<noteq> 0 then d else timedelta_minutes 15);
          p = \<lparr>sub = sub data, exp = Some (JInt (timegm expire))\<rparr>
      in JWS ALGORITHM p (sign SECRET_KEY ALGORITHM p))"
  by (simp add: create_access_token_def jwt_encode_def td_bool_def Let_def split: option.splits)

text \<open>
  C8. Without a lifetime, \<open>create_access_token\<close> encodes the expiry of fifteen minutes
  after the time of the call, in whole seconds; the login endpoint asks for thirty
  minutes. The token carries the algorithm \<open>ALGORITHM\<close> and the keyed hash of its payload
  under \<open>SECRET_KEY\<close>, both fixed.
\<close>

theorem default_token_lifetime:
  "create_access_token sign c None utcnow =
     JWS ALGORITHM
       \<lparr>sub = sub c, exp = Some (JInt (timegm (dt_add utcnow (timedelta_minutes 15))))\<rparr>
       (sign SECRET_KEY ALGORITHM
          \<lparr>sub = sub c, exp = Some (JInt (timegm (dt_add utcnow (timedelta_minutes 15))))\<rparr>) \<and>
   timegm (dt_add utcnow (timedelta_minutes 15)) = timegm utcnow + 15 * 60 \<and>
   (\<forall>user. authenticate_user pwd_verify db username password = Inr (Some user) \<longrightarrow>
      login sign pwd_verify db username password utcnow =
        Inr (Some (JWS ALGORITHM
                \<lparr>sub = Some (email user),
                   exp = Some (JInt (timegm (dt_add utcnow (timedelta_minutes 30))))\<rparr>
                (sign SECRET_KEY ALGORITHM
                   \<lparr>sub = Some (email user),
                      exp = Some (JInt (timegm (dt_add utcnow (timedelta_minutes 30))))\<rparr>)))) \<and>
   timegm (dt_add utcnow (timedelta_minutes 30)) = timegm utcnow + 30 * 60 \<and>
   SECRET_KEY = ''your-secret-key-here-change-in-production'' \<and> ALGORITHM = ''HS256''"
proof -
  have t: "td_micros (timedelta_minutes 30) \<noteq> 0" by (simp add: timedelta_minutes_def)
  show ?thesis
    by (simp add: create_access_token_eq login_def ACCESS_TOKEN_EXPIRE_MINUTES_def t Let_def
          timegm_dt_add_minutes)
       (simp add: SECRET_KEY_def ALGORITHM_def)
qed

text \<open>The theorem at the example session: the first user logs in.\<close>

theorem default_token_lifetime_witness:
  "authenticate_user ex_pwd_verify ex_db ''a@example.com'' ''pw12345678'' = Inr (Some ex_alice) \<and>
   login ex_sign ex_pwd_verify ex_db ''a@example.com'' ''pw12345678'' ex_issued =
     Inr (Some (JWS ''HS256'' \<lparr>sub = Some ''a@example.com'', exp = Some (JInt 1700001800)\<rparr>
             (ex_sign SECRET_KEY ''HS256''
                \<lparr>sub = Some ''a@example.com'', exp = Some (JInt 1700001800)\<rparr>))) \<and>
   create_access_token ex_sign ex_identity None ex_issued =
     JWS ''HS256'' \<lparr>sub = Some ''a@example.com'', exp = Some (JInt 1700000900)\<rparr>
       (ex_sign SECRET_KEY ''HS256'' \<lparr>sub = Some ''a@example.com'', exp = Some (JInt 1700000900)\<rparr>)"
proof -
  have h: "authenticate_user ex_pwd_verify ex_db ''a@example.com'' ''pw12345678'' = Inr (Some ex_alice)"
    by (simp add: authenticate_user_eq get_user_by_email_def ex_pwd_verify_def ex_defs)
  have g: "timegm ex_issued = 1700000000" by (simp add: timegm_def ex_issued_def)
  have e: "email ex_alice = ''a@example.com''" "sub ex_identity = Some ''a@example.com''"
    by (simp_all add: ex_alice_def ex_identity_def)
  show ?thesis
    using default_token_lifetime[of ex_sign ex_identity ex_issued ex_pwd_verify ex_db
        "''a@example.com''" "''pw12345678''"] h
    by (simp add: g e)
qed

subsection \<open>Verifying tokens\<close>

lemma jwt_decode_issued:
  "jwt_decode sign (JWS ALGORITHM \<lparr>sub = s, exp = Some (JInt e)\<rparr>
       (sign SECRET_KEY ALGORITHM \<lparr>sub = s, exp = Some (JInt e)\<rparr>)) SECRET_KEY [ALGORITHM]
       utcnow =
     (if e < timegm utcnow then Inl ExpiredSignatureError
      else Inr \<lparr>sub = s, exp = Some (JInt e)\<rparr>)"
  by (simp add: jwt_decode_def)

lemma verify_token_issued:
  "verify_token sign (create_access_token sign data (Some ttl) t0) x t1 =
     (if timegm (dt_add t0 (if td_micros ttl \<noteq> 0 then ttl else timedelta_minutes 15)) < timegm t1
      then Inl x
      else case sub data of None \<Rightarrow> Inl x | Some e \<Rightarrow> Inr \<lparr>email_token = Some e\<rparr>)"
  by (simp add: verify_token_def create_access_token_eq Let_def jwt_decode_issued)

text \<open>
  A token issued for thirty minutes at \<open>ex_issued\<close> expires at the instant
  1700001800250000. Verified at that very instant, and still at the end of that second,
  it is accepted: C3 as the spec states it (refused at or after issuance plus lifetime)
  does not hold.
\<close>

theorem token_expiry_counterexample:
  "0 < td_micros (timedelta_minutes 30) \<and>
   micros (dt_add ex_issued (timedelta_minutes 30)) = 1700001800250000 \<and>
   verify_token ex_sign (create_access_token ex_sign ex_identity (Some (timedelta_minutes 30)) ex_issued)
     credentials_exception (Datetime 1700001800250000) = Inr \<lparr>email_token = Some ''a@example.com''\<rparr> \<and>
   verify_token ex_sign (create_access_token ex_sign ex_identity (Some (timedelta_minutes 30)) ex_issued)
     credentials_exception (Datetime 1700001800999999) = Inr \<lparr>email_token = Some ''a@example.com''\<rparr>"
proof -
  have m: "micros (dt_add ex_issued (timedelta_minutes 30)) = 1700001800250000"
    by (simp add: dt_add_def ex_issued_def timedelta_minutes_def)
  have g: "timegm (dt_add ex_issued (timedelta_minutes 30)) = 1700001800"
    by (simp add: timegm_def m)
  have t: "td_micros (timedelta_minutes 30) \<noteq> 0" "0 < td_micros (timedelta_minutes 30)"
    by (simp_all add: timedelta_minutes_def)
  show ?thesis
    by (simp add: verify_token_issued t g m) (simp add: timegm_def ex_identity_def)
qed

text \<open>
  C3, amended. For an identity claim with a subject and a positive lifetime, verifying
  the issued token yields the subject when the whole second of the verification time is
  not after the whole second of issuance plus lifetime, and the authentication error
  otherwise. So it succeeds at every time before issuance plus lifetime, and fails from
  the first whole second after the encoded expiry on.
\<close>

theorem token_roundtrip:
  assumes "sub c = Some e" and "0 < td_micros ttl"
  shows "verify_token sign (create_access_token sign c (Some ttl) t0) x t1 =
           (if timegm t1 \<le> timegm (dt_add t0 ttl) then Inr \<lparr>email_token = Some e\<rparr> else Inl x) \<and>
         (micros t1 < micros (dt_add t0 ttl) \<longrightarrow>
            verify_token sign (create_access_token sign c (Some ttl) t0) x t1 =
              Inr \<lparr>email_token = Some e\<rparr>) \<and>
         ((timegm (dt_add t0 ttl) + 1) * 1000000 \<le> micros t1 \<longrightarrow>
            verify_token sign (create_access_token sign c (Some ttl) t0) x t1 = Inl x)"
proof -
  let ?v = "verify_token sign (create_access_token sign c (Some ttl) t0) x t1"
  have v: "?v = (if timegm t1 \<le> timegm (dt_add t0 ttl) then Inr \<lparr>email_token = Some e\<rparr> else Inl x)"
    using assms by (auto simp: verify_token_issued)
  have a: "timegm t1 \<le> timegm (dt_add t0 ttl)" if "micros t1 < micros (dt_add t0 ttl)"
    using that unfolding timegm_def by (intro zdiv_mono1) simp_all
  have b: "\<not> timegm t1 \<le> timegm (dt_add t0 ttl)"
    if "(timegm (dt_add t0 ttl) + 1) * 1000000 \<le> micros t1"
  proof -
    have "((timegm (dt_add t0 ttl) + 1) * 1000000) div 1000000 \<le> micros t1 div 1000000"
      using that by (intro zdiv_mono1) simp_all
    then show ?thesis by (simp add: timegm_def)
  qed
  show ?thesis using v a b by simp
qed

text \<open>The theorem at the example token: just before its expiry, and in the next second.\<close>

theorem token_roundtrip_witness:
  "sub ex_identity = Some ''a@example.com'' \<and> 0 < td_micros (timedelta_minutes 30) \<and>
   micros (dt_add ex_issued (timedelta_minutes 30)) = 1700001800250000 \<and>
   verify_token ex_sign (create_access_token ex_sign ex_identity (Some (timedelta_minutes 30)) ex_issued)
     credentials_exception (Datetime 1700001800249999) = Inr \<lparr>email_token = Some ''a@example.com''\<rparr> \<and>
   verify_token ex_sign (create_access_token ex_sign ex_identity (Some (timedelta_minutes 30)) ex_issued)
     credentials_exception (Datetime 1700001801000000) = Inl credentials_exception"
proof -
  have h1: "sub ex_identity = Some ''a@example.com''" by (simp add: ex_identity_def)
  have h2: "0 < td_micros (timedelta_minutes 30)" by (simp add: timedelta_minutes_def)
  have m: "micros (dt_add ex_issued (timedelta_minutes 30)) = 1700001800250000"
    by (simp add: dt_add_def ex_issued_def timedelta_minutes_def)
  have g: "timegm (dt_add ex_issued (timedelta_minutes 30)) = 1700001800"
    by (simp add: timegm_def m)
  show ?thesis
    using token_roundtrip[OF h1 h2, of ex_sign ex_issued credentials_exception "Datetime 1700001800249999"]
      token_roundtrip[OF h1 h2, of ex_sign ex_issued credentials_exception "Datetime 1700001801000000"]
      h1 h2 m
    by (simp add: timegm_def)
qed

subsection \<open>One authentication error\<close>

text \<open>
  What \<open>get_current_user\<close> can raise: the one \<open>credentials_exception\<close>, or what \<open>int\<close>
  raises on the expiry claim of a token that carries the right algorithm and signature.
\<close>

lemma get_current_user_raises:
  assumes "get_current_user sign tok db utcnow = Inl err"
  shows "err = credentials_exception \<or>
         (\<exists>p v. tok = JWS ALGORITHM p (sign SECRET_KEY ALGORITHM p) \<and> exp p = Some v \<and>
            py_int v = Inl err \<and> (err = TypeError \<or> err = OverflowError))"
proof (cases tok)
  case (Malformed s)
  then show ?thesis
    using assms by (simp add: get_current_user_def verify_token_def jwt_decode_def)
next
  case (JWS a p g)
  show ?thesis
  proof (cases "exp p")
    case None
    then show ?thesis
      using assms JWS
      by (auto simp: get_current_user_def verify_token_def jwt_decode_def
            split: option.splits if_splits)
  next
    case (Some v)
    then show ?thesis
      using assms JWS
      by (cases v)
         (auto simp: get_current_user_def verify_token_def jwt_decode_def
            split: option.splits if_splits)
  qed
qed

text \<open>
  C2 is what the handler in \<open>verify_token\<close> aims at, and the code breaks it. The secret
  stands in the source, so anyone can sign the payload \<open>{"sub": "a@example.com", "exp":
  null}\<close>. For that token \<open>int(None)\<close> raises a \<open>TypeError\<close> inside \<open>jwt.decode\<close>, which
  \<open>except JWTError\<close> does not catch: \<open>get_current_user\<close> ends with the \<open>TypeError\<close>, not with
  \<open>credentials_exception\<close>, the error of a string that is no token. An expiry of
  \<open>Infinity\<close> ends with an \<open>OverflowError\<close> in the same way.
\<close>

theorem null_expiry_not_caught:
  "get_current_user sign (JWS ALGORITHM ex_null_exp (sign SECRET_KEY ALGORITHM ex_null_exp))
     db utcnow = Inl TypeError \<and>
   get_current_user sign
     (JWS ALGORITHM \<lparr>sub = Some ''a@example.com'', exp = Some JInfinity\<rparr>
        (sign SECRET_KEY ALGORITHM \<lparr>sub = Some ''a@example.com'', exp = Some JInfinity\<rparr>))
     db utcnow = Inl OverflowError \<and>
   get_current_user sign (Malformed ''invalid_token_here'') db utcnow =
     Inl credentials_exception \<and>
   TypeError \<noteq> credentials_exception \<and> OverflowError \<noteq> credentials_exception"
  by (simp add: get_current_user_def verify_token_def jwt_decode_def ex_null_exp_def
        credentials_exception_def)

end
